theory Spec2Isabelle
  imports Main "HOL-Library.Word" "HOL-Library.Signed_Division"
begin

section \<open>Data model\<close>

text \<open>
  Go's \<open>int\<close> (on a 64-bit platform), \<open>int64\<close> and \<open>time.Duration\<close> (an \<open>int64\<close> of
  nanoseconds) are 64-bit words: \<open>+\<close> and \<open>*\<close> wrap around, \<open>sint\<close> reads the signed value.
  A Go slice is \<open>None\<close> when it is nil and \<open>Some xs\<close> otherwise, since
  \<open>reflect.DeepEqual\<close> tells a nil slice from an empty one. A Go map is a nil-able partial
  function.
\<close>

type_synonym go_int = "64 word"
type_synonym int64 = "64 word"
type_synonym Duration = "64 word"
type_synonym 'a slice = "'a list option"

definition elems :: "'a slice \<Rightarrow> 'a list" where
  "elems s = (case s of None \<Rightarrow> [] | Some xs \<Rightarrow> xs)"

definition append_slice :: "'a slice \<Rightarrow> 'a \<Rightarrow> 'a slice" where
  "append_slice s x = Some (elems s @ [x])"

definition Millisecond :: Duration where
  "Millisecond = 1000000"

text \<open>\<open>time.Duration(n) * time.Millisecond\<close>: a wrapping 64-bit multiplication.\<close>

definition duration_of_ms :: "go_int \<Rightarrow> Duration" where
  "duration_of_ms n = n * Millisecond"

text \<open>\<open>int(d / time.Millisecond)\<close>: Go's signed division truncates towards zero.\<close>

definition ms_of_duration :: "Duration \<Rightarrow> go_int" where
  "ms_of_duration d = word_of_int (sint d sdiv sint Millisecond)"

subsection \<open>client.BackendConfig and client.ServiceConfig\<close>

record BackendConfig =
  bc_Name :: string
  bc_Addr :: string
  bc_CheckAddr :: string
  bc_Weight :: go_int
  bc_Network :: string

record ServiceConfig =
  cfg_Name :: string
  cfg_Addr :: string
  cfg_VirtualHosts :: "string slice"
  cfg_Balance :: string
  cfg_CheckInterval :: go_int
  cfg_Fall :: go_int
  cfg_Rise :: go_int
  cfg_ClientTimeout :: go_int
  cfg_ServerTimeout :: go_int
  cfg_DialTimeout :: go_int
  cfg_ErrorPages :: "(string \<rightharpoonup> go_int slice) option"
  cfg_Network :: string
  cfg_Backends :: "BackendConfig slice"

subsection \<open>Backend\<close>

text \<open>
  The fields of \<open>Backend\<close> that service.go reads or writes, with \<open>CheckAddr\<close> and \<open>Weight\<close>
  of its configuration.
\<close>

record Backend =
  b_Name :: string
  b_Addr :: string
  b_CheckAddr :: string
  b_Weight :: go_int
  b_Network :: string
  b_up :: bool
  b_rwTimeout :: Duration
  b_dialTimeout :: Duration
  b_checkInterval :: Duration
  b_Sent :: int64
  b_Rcvd :: int64
  b_Errors :: int64
  b_Conns :: int64
  b_Active :: int64
  b_HTTPActive :: int64

text \<open>Modelled from the spec: \<open>NewBackend\<close> of backend.go, which is not among the sources.
  The spec gives a backend its name, dial address, optional check address, weight
  (default 1) and network (default tcp); the counters and the fields that
  \<open>Service.add\<close> fills in start at Go's zero values.\<close>

definition NewBackend :: "BackendConfig \<Rightarrow> Backend" where
  "NewBackend cfg =
     \<lparr> b_Name = bc_Name cfg,
       b_Addr = bc_Addr cfg,
       b_CheckAddr = bc_CheckAddr cfg,
       b_Weight = (if bc_Weight cfg = 0 then 1 else bc_Weight cfg),
       b_Network = (if bc_Network cfg = [] then ''tcp'' else bc_Network cfg),
       b_up = False,
       b_rwTimeout = 0,
       b_dialTimeout = 0,
       b_checkInterval = 0,
       b_Sent = 0, b_Rcvd = 0, b_Errors = 0, b_Conns = 0, b_Active = 0, b_HTTPActive = 0 \<rparr>"

text \<open>Modelled from the spec: \<open>Backend.Config\<close> of backend.go, which is not among the
  sources: the configuration fields of the backend, read back.\<close>

definition Backend_Config :: "Backend \<Rightarrow> BackendConfig" where
  "Backend_Config b =
     \<lparr> bc_Name = b_Name b,
       bc_Addr = b_Addr b,
       bc_CheckAddr = b_CheckAddr b,
       bc_Weight = b_Weight b,
       bc_Network = b_Network b \<rparr>"

record BackendStat =
  bs_Name :: string
  bs_Addr :: string
  bs_Up :: bool
  bs_Sent :: int64
  bs_Rcvd :: int64
  bs_Errors :: int64
  bs_Conns :: int64
  bs_Active :: int64

text \<open>Modelled from the spec: \<open>Backend.Stats\<close> of backend.go, which is not among the
  sources: a snapshot of the counters and of \<open>up\<close>.\<close>

definition Backend_Stats :: "Backend \<Rightarrow> BackendStat" where
  "Backend_Stats b =
     \<lparr> bs_Name = b_Name b, bs_Addr = b_Addr b, bs_Up = b_up b,
       bs_Sent = b_Sent b, bs_Rcvd = b_Rcvd b, bs_Errors = b_Errors b,
       bs_Conns = b_Conns b, bs_Active = b_Active b \<rparr>"

subsection \<open>Service\<close>

datatype balancer = roundRobin | leastConn

text \<open>
  The \<open>Service\<close> struct of service.go without its mutex, listeners, reverse proxy,
  error-page cache and dialer. \<open>Backends\<close> holds the backends that the slice of pointers
  refers to; \<open>nextfn\<close> is the field \<open>next\<close>, \<open>None\<close> when the function value is nil.
\<close>

record Service =
  Name :: string
  Addr :: string
  VirtualHosts :: "string slice"
  Backends :: "Backend list"
  Balance :: string
  CheckInterval :: go_int
  Fall :: go_int
  Rise :: go_int
  ClientTimeout :: Duration
  ServerTimeout :: Duration
  DialTimeout :: Duration
  Sent :: int64
  Rcvd :: int64
  Errors :: int64
  HTTPConns :: int64
  HTTPErrors :: int64
  HTTPActive :: int64
  Network :: string
  nextfn :: "balancer option"
  lastBackend :: go_int
  lastCount :: go_int
  errPagesCfg :: "(string \<rightharpoonup> go_int slice) option"

record ServiceStat =
  st_Name :: string
  st_Addr :: string
  st_VirtualHosts :: "string slice"
  st_Backends :: "BackendStat slice"
  st_Balance :: string
  st_CheckInterval :: go_int
  st_Fall :: go_int
  st_Rise :: go_int
  st_ClientTimeout :: go_int
  st_ServerTimeout :: go_int
  st_DialTimeout :: go_int
  st_Sent :: int64
  st_Rcvd :: int64
  st_Errors :: int64
  st_Conns :: int64
  st_Active :: int64
  st_HTTPActive :: int64
  st_HTTPConns :: int64
  st_HTTPErrors :: int64

section \<open>Service operations (service.go)\<close>

subsection \<open>UpdateDefaults\<close>

text \<open>The result pairs the returned \<open>error\<close> (\<open>None\<close> for nil) with the updated service.\<close>

definition UpdateDefaults :: "Service \<Rightarrow> ServiceConfig \<Rightarrow> string option \<times> Service" where
  "UpdateDefaults s cfg =
     (let s = (if cfg_CheckInterval cfg \<noteq> 0 then s\<lparr>CheckInterval := cfg_CheckInterval cfg\<rparr> else s);
          s = (if cfg_Fall cfg \<noteq> 0 then s\<lparr>Fall := cfg_Fall cfg\<rparr> else s);
          s = (if cfg_Rise cfg \<noteq> 0 then s\<lparr>Rise := cfg_Rise cfg\<rparr> else s);
          s = (if cfg_ClientTimeout cfg \<noteq> 0
               then s\<lparr>ClientTimeout := duration_of_ms (cfg_ClientTimeout cfg)\<rparr> else s);
          s = (if cfg_ServerTimeout cfg \<noteq> 0
               then s\<lparr>ServerTimeout := duration_of_ms (cfg_ServerTimeout cfg)\<rparr> else s);
          s = (if cfg_DialTimeout cfg \<noteq> 0
               then s\<lparr>DialTimeout := duration_of_ms (cfg_DialTimeout cfg)\<rparr> else s)
      in (None, s))"

subsection \<open>Stats and Config\<close>

text \<open>
  Both start from a struct literal (fields not named there are Go's zero values) and
  walk the backends in order.
\<close>

definition Stats :: "Service \<Rightarrow> ServiceStat" where
  "Stats s =
     foldl (\<lambda>stats b. stats
              \<lparr> st_Backends := append_slice (st_Backends stats) (Backend_Stats b),
                st_Sent := st_Sent stats + b_Sent b,
                st_Rcvd := st_Rcvd stats + b_Rcvd b,
                st_Errors := st_Errors stats + b_Errors b,
                st_Conns := st_Conns stats + b_Conns b,
                st_Active := st_Active stats + b_Active b \<rparr>)
       \<lparr> st_Name = Name s,
         st_Addr = Addr s,
         st_VirtualHosts = VirtualHosts s,
         st_Backends = None,
         st_Balance = Balance s,
         st_CheckInterval = CheckInterval s,
         st_Fall = Fall s,
         st_Rise = Rise s,
         st_ClientTimeout = ms_of_duration (ClientTimeout s),
         st_ServerTimeout = ms_of_duration (ServerTimeout s),
         st_DialTimeout = ms_of_duration (DialTimeout s),
         st_Sent = Sent s,
         st_Rcvd = Rcvd s,
         st_Errors = 0,
         st_Conns = 0,
         st_Active = 0,
         st_HTTPActive = HTTPActive s,
         st_HTTPConns = HTTPConns s,
         st_HTTPErrors = HTTPErrors s \<rparr>
       (Backends s)"

definition Config :: "Service \<Rightarrow> ServiceConfig" where
  "Config s =
     foldl (\<lambda>config b. config
              \<lparr> cfg_Backends := append_slice (cfg_Backends config) (Backend_Config b) \<rparr>)
       \<lparr> cfg_Name = Name s,
         cfg_Addr = Addr s,
         cfg_VirtualHosts = VirtualHosts s,
         cfg_Balance = Balance s,
         cfg_CheckInterval = CheckInterval s,
         cfg_Fall = Fall s,
         cfg_Rise = Rise s,
         cfg_ClientTimeout = ms_of_duration (ClientTimeout s),
         cfg_ServerTimeout = ms_of_duration (ServerTimeout s),
         cfg_DialTimeout = ms_of_duration (DialTimeout s),
         cfg_ErrorPages = errPagesCfg s,
         cfg_Network = Network s,
         cfg_Backends = None \<rparr>
       (Backends s)"

subsection \<open>add and remove\<close>

text \<open>
  A string slice \<open>x[:3]\<close> panics when \<open>x\<close> is shorter than three bytes. The calls of
  \<open>Backend.Stop\<close> and \<open>Backend.Start\<close> and the error line of \<open>add\<close> are recorded, in
  order, as events; the informational log lines are left out.
\<close>

datatype panic = SliceBoundsOutOfRange

datatype event =
    LogNetworkError string string
  | BackendStop Backend
  | BackendStart Backend

definition slice3 :: "string \<Rightarrow> panic + string" where
  "slice3 x = (if length x < 3 then Inl SliceBoundsOutOfRange else Inr (take 3 x))"

text \<open>The index of the first backend with the given name, as both range loops find it.\<close>

fun find_name :: "string \<Rightarrow> Backend list \<Rightarrow> nat option" where
  "find_name n [] = None"
| "find_name n (b # bs) = (if b_Name b = n then Some 0 else map_option Suc (find_name n bs))"

definition add :: "Service \<Rightarrow> Backend \<Rightarrow> panic + (event list \<times> Service)" where
  "add s backend0 =
     (let backend = backend0
            \<lparr> b_up := True,
              b_rwTimeout := ServerTimeout s,
              b_dialTimeout := DialTimeout s,
              b_checkInterval := duration_of_ms (CheckInterval s) \<rparr>
      in case slice3 (Network s) of
           Inl p \<Rightarrow> Inl p
         | Inr sn \<Rightarrow>
             (case slice3 (b_Network backend) of
                Inl p \<Rightarrow> Inl p
              | Inr bn \<Rightarrow>
                  (let errs = (if sn \<noteq> bn
                               then [LogNetworkError (b_Name backend) (b_Network backend)]
                               else [])
                   in case find_name (b_Name backend) (Backends s) of
                        Some i \<Rightarrow>
                          Inr (errs @ [BackendStop (Backends s ! i), BackendStart backend],
                               s\<lparr>Backends := (Backends s)[i := backend]\<rparr>)
                      | None \<Rightarrow>
                          Inr (errs @ [BackendStart backend],
                               s\<lparr>Backends := Backends s @ [backend]\<rparr>))))"

text \<open>
  \<open>remove\<close> moves the last backend into the freed slot and shortens the slice by one.
\<close>

definition remove :: "Service \<Rightarrow> string \<Rightarrow> bool \<times> event list \<times> Service" where
  "remove s name =
     (case find_name name (Backends s) of
        Some i \<Rightarrow>
          (let last = length (Backends s) - 1;
               deleted = Backends s ! i
           in (True, [BackendStop deleted],
               s\<lparr>Backends := take last ((Backends s)[i := Backends s ! last])\<rparr>))
      | None \<Rightarrow> (False, [], s))"

subsection \<open>NewService\<close>

fun add_backends :: "Service \<Rightarrow> BackendConfig list \<Rightarrow> panic + (event list \<times> Service)" where
  "add_backends s [] = Inr ([], s)"
| "add_backends s (b # bs) =
     (case add s (NewBackend b) of
        Inl p \<Rightarrow> Inl p
      | Inr (ev, s') \<Rightarrow>
          (case add_backends s' bs of
             Inl p \<Rightarrow> Inl p
           | Inr (ev', s'') \<Rightarrow> Inr (ev @ ev', s'')))"

definition NewService :: "ServiceConfig \<Rightarrow> panic + (event list \<times> Service)" where
  "NewService cfg =
     (let s = \<lparr> Name = cfg_Name cfg,
                Addr = cfg_Addr cfg,
                VirtualHosts = cfg_VirtualHosts cfg,
                Backends = [],
                Balance = cfg_Balance cfg,
                CheckInterval = cfg_CheckInterval cfg,
                Fall = cfg_Fall cfg,
                Rise = cfg_Rise cfg,
                ClientTimeout = duration_of_ms (cfg_ClientTimeout cfg),
                ServerTimeout = duration_of_ms (cfg_ServerTimeout cfg),
                DialTimeout = duration_of_ms (cfg_DialTimeout cfg),
                Sent = 0, Rcvd = 0, Errors = 0,
                HTTPConns = 0, HTTPErrors = 0, HTTPActive = 0,
                Network = cfg_Network cfg,
                nextfn = None,
                lastBackend = 0,
                lastCount = 0,
                errPagesCfg = cfg_ErrorPages cfg \<rparr>;
          s = (if CheckInterval s = 0 then s\<lparr>CheckInterval := 2000\<rparr> else s);
          s = (if Rise s = 0 then s\<lparr>Rise := 2\<rparr> else s);
          s = (if Fall s = 0 then s\<lparr>Fall := 2\<rparr> else s);
          s = (if Network s = [] then s\<lparr>Network := ''tcp''\<rparr> else s)
      in case add_backends s (elems (cfg_Backends cfg)) of
           Inl p \<Rightarrow> Inl p
         | Inr (ev, s) \<Rightarrow>
             Inr (ev,
                  if cfg_Balance cfg = ''RR'' \<or> cfg_Balance cfg = [] then s\<lparr>nextfn := Some roundRobin\<rparr>
                  else if cfg_Balance cfg = ''LC'' then s\<lparr>nextfn := Some leastConn\<rparr>
                  else s))"

subsection \<open>connectTCP\<close>

text \<open>
  \<open>s.next()\<close> returns pointers to backends of the service: a candidate is the index of
  its backend in \<open>Backends\<close>, so that a counter incremented through the pointer is seen
  by every other holder of it. The balancer itself (\<open>roundRobin\<close>, \<open>leastConn\<close>) is not
  among the sources: its result is the argument \<open>backends\<close>. The network decides each
  dial: \<open>dial k network addr\<close> tells whether the \<open>k\<close>-th dial of the walk succeeds.
  \<open>Backend.Proxy\<close> takes both connections over; the result names the backend it was
  called on.
\<close>

datatype log_line = WARN | ERROR




subsection \<open>runUDP\<close>

text \<open>
  One turn of the loop is decided by what the socket and the balancer answer: the
  result of \<open>ReadFromUDP\<close>, whether \<open>udpRoundRobin\<close> (not among the sources) finds a
  backend, and the result of \<open>WriteTo\<close>. An error is the closed-connection error, a
  temporary \<open>net.Error\<close>, or any other error.
\<close>

datatype net_error = ClosedConnection | Temporary | Permanent

record udp_turn =
  read_n :: go_int
  read_err :: "net_error option"
  backend_found :: bool
  write_n :: go_int
  write_err :: "net_error option"

datatype flow = Continue | Return

text \<open>The body of the loop: whether the loop goes on, the lines logged, the service.\<close>

definition udp_body :: "Service \<Rightarrow> udp_turn \<Rightarrow> flow \<times> log_line list \<times> Service" where
  "udp_body s t =
     (if read_err t = Some ClosedConnection then (Return, [], s)
      else if read_err t = Some Permanent then (Return, [ERROR], s\<lparr>Errors := Errors s + 1\<rparr>)
      else
        (let lg = (if read_err t = Some Temporary then [WARN] else [])
         in if read_n t = 0 then (Continue, lg, s)
            else
              (let s = s\<lparr>Rcvd := Rcvd s + read_n t\<rparr>
               in if \<not> backend_found t then (Continue, lg, s)
                  else if write_err t \<noteq> None
                  then (if write_err t = Some Temporary
                        then (Continue, lg @ [WARN], s)
                        else (Continue, lg @ [ERROR], s\<lparr>Errors := Errors s + 1\<rparr>))
                  else (Continue, lg, s\<lparr>Sent := Sent s + write_n t\<rparr>))))"

text \<open>
  The loop over the turns the network supplies. It ends with \<open>Return\<close> when the body
  returned, and with \<open>Continue\<close> when it is back at \<open>ReadFromUDP\<close> after the last turn.
\<close>

fun runUDP :: "Service \<Rightarrow> log_line list \<Rightarrow> udp_turn list \<Rightarrow> flow \<times> log_line list \<times> Service" where
  "runUDP s lg [] = (Continue, lg, s)"
| "runUDP s lg (t # ts) =
     (case udp_body s t of
        (Return, lg', s') \<Rightarrow> (Return, lg @ lg', s')
      | (Continue, lg', s') \<Rightarrow> runUDP s' (lg @ lg') ts)"

section \<open>Comparing configurations (package client)\<close>

definition BackendConfig_Equal :: "BackendConfig \<Rightarrow> BackendConfig \<Rightarrow> bool" where
  "BackendConfig_Equal b0 other0 =
     (let other = (if bc_Weight other0 = 0 then other0\<lparr>bc_Weight := 1\<rparr> else other0);
          b = (if bc_Weight b0 = 0 then b0\<lparr>bc_Weight := 1\<rparr> else b0);
          b = (if bc_Network b = [] then b\<lparr>bc_Network := ''tcp''\<rparr> else b);
          other = (if bc_Network other = [] then other\<lparr>bc_Network := ''tcp''\<rparr> else other)
      in b = other)"

text \<open>\<open>reflect.DeepEqual\<close> on two structs of this type is equality of the records.\<close>

definition ServiceConfig_Equal :: "ServiceConfig \<Rightarrow> ServiceConfig \<Rightarrow> bool" where
  "ServiceConfig_Equal s0 other0 =
     (let s = s0\<lparr>cfg_Backends := None\<rparr>;
          other = other0\<lparr>cfg_Backends := None\<rparr>;
          other = (if cfg_Balance s \<noteq> cfg_Balance other
                   then (if cfg_Balance s = [] \<and> cfg_Balance other = ''RR''
                         then other\<lparr>cfg_Balance := []\<rparr>
                         else if cfg_Balance s = ''RR'' \<and> cfg_Balance other = []
                         then other\<lparr>cfg_Balance := ''RR''\<rparr>
                         else other)
                   else other);
          s = (if cfg_CheckInterval s = 0 then s\<lparr>cfg_CheckInterval := 2000\<rparr> else s);
          other = (if cfg_CheckInterval other = 0 then other\<lparr>cfg_CheckInterval := 2000\<rparr> else other);
          s = (if cfg_Rise s = 0 then s\<lparr>cfg_Rise := 2\<rparr> else s);
          other = (if cfg_Rise other = 0 then other\<lparr>cfg_Rise := 2\<rparr> else other);
          s = (if cfg_Fall s = 0 then s\<lparr>cfg_Fall := 2\<rparr> else s);
          other = (if cfg_Fall other = 0 then other\<lparr>cfg_Fall := 2\<rparr> else other);
          s = (if cfg_Network s = [] then s\<lparr>cfg_Network := ''tcp''\<rparr> else s);
          s = s\<lparr>cfg_Backends := None\<rparr>;
          other = other\<lparr>cfg_Backends := None\<rparr>
      in s = other)"

text \<open>
  The inner loop of \<open>DeepEqual\<close>: \<open>True\<close> when it ends or is left by \<open>break\<close>, \<open>False\<close>
  when it makes \<open>DeepEqual\<close> return false.
\<close>

fun match_backend :: "BackendConfig \<Rightarrow> BackendConfig list \<Rightarrow> bool" where
  "match_backend a [] = True"
| "match_backend a (b # bs) =
     (if bc_Name a = bc_Name b
      then (if BackendConfig_Equal a b then True else False)
      else match_backend a bs)"

fun match_backends :: "BackendConfig list \<Rightarrow> BackendConfig list \<Rightarrow> bool" where
  "match_backends [] others = True"
| "match_backends (a # as) others =
     (if match_backend a others then match_backends as others else False)"

definition ServiceConfig_DeepEqual :: "ServiceConfig \<Rightarrow> ServiceConfig \<Rightarrow> bool" where
  "ServiceConfig_DeepEqual s other =
     (if length (elems (cfg_Backends s)) \<noteq> length (elems (cfg_Backends other)) then False
      else if \<not> ServiceConfig_Equal s other then False
      else match_backends (elems (cfg_Backends s)) (elems (cfg_Backends other)))"

section \<open>The state file (config.go)\<close>

text \<open>
  The file system maps a path to the bytes of the file there. \<open>ioutil.ReadFile\<close> gives
  the bytes of an existing file and an error (with no bytes) otherwise.
  \<open>ioutil.WriteFile\<close> either succeeds or fails, and a failed write leaves behind
  whatever the outcome names. \<open>marshal(Registry.Config())\<close> is not among the sources:
  its bytes are the argument \<open>cfg\<close>.
\<close>

type_synonym bytes = "8 word list"
type_synonym filesystem = "string \<rightharpoonup> bytes"

datatype write_outcome = WriteOk | WriteFailed "bytes option"

definition ReadFile :: "filesystem \<Rightarrow> string \<Rightarrow> bytes \<times> bool" where
  "ReadFile fs path = (case fs path of None \<Rightarrow> ([], False) | Some d \<Rightarrow> (d, True))"

definition WriteFile :: "filesystem \<Rightarrow> string \<Rightarrow> bytes \<Rightarrow> write_outcome \<Rightarrow> filesystem" where
  "WriteFile fs path d outcome =
     (case outcome of WriteOk \<Rightarrow> fs(path \<mapsto> d) | WriteFailed left \<Rightarrow> fs(path := left))"

text \<open>The result: the file system afterwards, and how often \<open>WriteFile\<close> was called.\<close>

definition writeStateConfig ::
  "string \<Rightarrow> bytes \<Rightarrow> write_outcome \<Rightarrow> filesystem \<Rightarrow> filesystem \<times> nat" where
  "writeStateConfig stateConfig cfg outcome fs =
     (if stateConfig = [] then (fs, 0)
      else if length cfg = 0 then (fs, 0)
      else
        (let lastCfg = fst (ReadFile fs stateConfig)
         in if cfg = lastCfg then (fs, 0)
            else (WriteFile fs stateConfig cfg outcome, 1)))"

section \<open>Zero values\<close>

text \<open>Go's zero values of the structs, from which concrete inputs are built.\<close>

definition zero_BackendConfig :: BackendConfig where
  "zero_BackendConfig =
     \<lparr> bc_Name = [], bc_Addr = [], bc_CheckAddr = [], bc_Weight = 0, bc_Network = [] \<rparr>"

definition zero_ServiceConfig :: ServiceConfig where
  "zero_ServiceConfig =
     \<lparr> cfg_Name = [], cfg_Addr = [], cfg_VirtualHosts = None, cfg_Balance = [],
       cfg_CheckInterval = 0, cfg_Fall = 0, cfg_Rise = 0,
       cfg_ClientTimeout = 0, cfg_ServerTimeout = 0, cfg_DialTimeout = 0,
       cfg_ErrorPages = None, cfg_Network = [], cfg_Backends = None \<rparr>"

definition zero_Backend :: Backend where
  "zero_Backend =
     \<lparr> b_Name = [], b_Addr = [], b_CheckAddr = [], b_Weight = 0, b_Network = [],
       b_up = False, b_rwTimeout = 0, b_dialTimeout = 0, b_checkInterval = 0,
       b_Sent = 0, b_Rcvd = 0, b_Errors = 0, b_Conns = 0, b_Active = 0, b_HTTPActive = 0 \<rparr>"

definition zero_Service :: Service where
  "zero_Service =
     \<lparr> Name = [], Addr = [], VirtualHosts = None, Backends = [], Balance = [],
       CheckInterval = 0, Fall = 0, Rise = 0,
       ClientTimeout = 0, ServerTimeout = 0, DialTimeout = 0,
       Sent = 0, Rcvd = 0, Errors = 0, HTTPConns = 0, HTTPErrors = 0, HTTPActive = 0,
       Network = [], nextfn = None, lastBackend = 0, lastCount = 0, errPagesCfg = None \<rparr>"

definition zero_udp_turn :: udp_turn where
  "zero_udp_turn =
     \<lparr> read_n = 0, read_err = None, backend_found = False, write_n = 0, write_err = None \<rparr>"

text \<open>A tcp backend and a tcp service with the defaults filled in, for concrete inputs.\<close>

definition tcp_backend :: "string \<Rightarrow> string \<Rightarrow> Backend" where
  "tcp_backend n a = zero_Backend\<lparr>b_Name := n, b_Addr := a, b_Weight := 1, b_Network := ''tcp''\<rparr>"

definition web_service :: "Backend list \<Rightarrow> Service" where
  "web_service bs =
     zero_Service\<lparr>Name := ''web'', Addr := ''127.0.0.1:8080'', Backends := bs,
       CheckInterval := 2000, Fall := 2, Rise := 2, Network := ''tcp'',
       nextfn := Some roundRobin\<rparr>"



definition send_turn :: "go_int \<Rightarrow> net_error option \<Rightarrow> udp_turn" where
  "send_turn n err =
     zero_udp_turn\<lparr>read_n := n, backend_found := True, write_n := n, write_err := err\<rparr>"

section \<open>UpdateDefaults changes the tunables only\<close>

text \<open>
  Claim C10. \<open>UpdateDefaults\<close> always returns nil. Of the service it changes only the
  tunables whose configuration value is not zero (\<open>CheckInterval\<close>, \<open>Fall\<close>, \<open>Rise\<close>,
  \<open>ClientTimeout\<close>, \<open>ServerTimeout\<close>, \<open>DialTimeout\<close>): the name, address, balance,
  network, backend list, counters and every tunable whose configuration value is zero
  are as before.
\<close>

theorem UpdateDefaults_frame:
  "\<exists>s'. UpdateDefaults s cfg = (None, s') \<and>
    Name s' = Name s \<and> Addr s' = Addr s \<and> VirtualHosts s' = VirtualHosts s \<and>
    Balance s' = Balance s \<and> Network s' = Network s \<and> Backends s' = Backends s \<and>
    Sent s' = Sent s \<and> Rcvd s' = Rcvd s \<and> Errors s' = Errors s \<and>
    HTTPConns s' = HTTPConns s \<and> HTTPErrors s' = HTTPErrors s \<and> HTTPActive s' = HTTPActive s \<and>
    nextfn s' = nextfn s \<and> lastBackend s' = lastBackend s \<and> lastCount s' = lastCount s \<and>
    errPagesCfg s' = errPagesCfg s \<and>
    CheckInterval s' = (if cfg_CheckInterval cfg = 0 then CheckInterval s else cfg_CheckInterval cfg) \<and>
    Fall s' = (if cfg_Fall cfg = 0 then Fall s else cfg_Fall cfg) \<and>
    Rise s' = (if cfg_Rise cfg = 0 then Rise s else cfg_Rise cfg) \<and>
    ClientTimeout s' = (if cfg_ClientTimeout cfg = 0 then ClientTimeout s
                        else duration_of_ms (cfg_ClientTimeout cfg)) \<and>
    ServerTimeout s' = (if cfg_ServerTimeout cfg = 0 then ServerTimeout s
                        else duration_of_ms (cfg_ServerTimeout cfg)) \<and>
    DialTimeout s' = (if cfg_DialTimeout cfg = 0 then DialTimeout s
                      else duration_of_ms (cfg_DialTimeout cfg))"
  by (simp add: UpdateDefaults_def Let_def)

theorem UpdateDefaults_frame_witness:
  "\<exists>s'. UpdateDefaults (zero_Service\<lparr>Name := ''web'', Fall := 5, Errors := 7\<rparr>)
            (zero_ServiceConfig\<lparr>cfg_Name := ''other'', cfg_Rise := 3, cfg_DialTimeout := 2\<rparr>) = (None, s') \<and>
     Name s' = ''web'' \<and> Errors s' = 7 \<and> Backends s' = [] \<and>
     Fall s' = 5 \<and> Rise s' = 3 \<and> CheckInterval s' = 0 \<and> DialTimeout s' = 2000000"
  using UpdateDefaults_frame
    [of "zero_Service\<lparr>Name := ''web'', Fall := 5, Errors := 7\<rparr>"
        "zero_ServiceConfig\<lparr>cfg_Name := ''other'', cfg_Rise := 3, cfg_DialTimeout := 2\<rparr>"]
  by (auto simp: zero_Service_def zero_ServiceConfig_def duration_of_ms_def Millisecond_def)

section \<open>The state file is written only on a change\<close>

text \<open>
  Claim C7. \<open>writeStateConfig\<close> calls \<open>WriteFile\<close> exactly when the state path is not
  empty, the marshalled configuration is not empty and its bytes differ from the bytes
  in the file; when the path is empty, or the marshalled configuration is empty, or the
  file already holds these bytes, nothing is written and the file system is unchanged.
\<close>

theorem writeStateConfig_no_write:
  "(snd (writeStateConfig stateConfig cfg outcome fs) = 0)
     = (stateConfig = [] \<or> cfg = [] \<or> fs stateConfig = Some cfg) \<and>
   (stateConfig = [] \<or> cfg = [] \<or> fs stateConfig = Some cfg
      \<longrightarrow> writeStateConfig stateConfig cfg outcome fs = (fs, 0))"
  by (auto simp: writeStateConfig_def ReadFile_def Let_def split: option.splits)

theorem writeStateConfig_no_write_witness:
  "writeStateConfig ''state.json'' [123, 125] WriteOk [''state.json'' \<mapsto> [123, 125]]
     = ([''state.json'' \<mapsto> [123, 125]], 0)"
  using writeStateConfig_no_write
    [of "''state.json''" "[123, 125]" WriteOk "[''state.json'' \<mapsto> [123, 125]]"]
  by simp

section \<open>Stats\<close>

text \<open>What \<open>Stats\<close> adds up: the loop over the backends in closed form.\<close>

lemma Stats_foldl:
  "foldl (\<lambda>stats b. stats
              \<lparr> st_Backends := append_slice (st_Backends stats) (Backend_Stats b),
                st_Sent := st_Sent stats + b_Sent b,
                st_Rcvd := st_Rcvd stats + b_Rcvd b,
                st_Errors := st_Errors stats + b_Errors b,
                st_Conns := st_Conns stats + b_Conns b,
                st_Active := st_Active stats + b_Active b \<rparr>) st bs =
   st \<lparr> st_Backends := (if bs = [] then st_Backends st
                         else Some (elems (st_Backends st) @ map Backend_Stats bs)),
        st_Sent := st_Sent st + sum_list (map b_Sent bs),
        st_Rcvd := st_Rcvd st + sum_list (map b_Rcvd bs),
        st_Errors := st_Errors st + sum_list (map b_Errors bs),
        st_Conns := st_Conns st + sum_list (map b_Conns bs),
        st_Active := st_Active st + sum_list (map b_Active bs) \<rparr>"
proof (induction bs arbitrary: st)
  case Nil
  show ?case by simp
next
  case (Cons b bs)
  show ?case
    by (simp only: foldl_Cons Cons.IH) (simp add: append_slice_def elems_def add.assoc)
qed

lemma Stats_sums:
  "st_Sent (Stats s) = Sent s + sum_list (map b_Sent (Backends s))"
  "st_Rcvd (Stats s) = Rcvd s + sum_list (map b_Rcvd (Backends s))"
  "st_Errors (Stats s) = sum_list (map b_Errors (Backends s))"
  "st_Conns (Stats s) = sum_list (map b_Conns (Backends s))"
  "st_Active (Stats s) = sum_list (map b_Active (Backends s))"
  by (simp_all add: Stats_def Stats_foldl)

text \<open>
  Claim C6. The claim asks that the errors returned by \<open>Stats\<close> be the service's own
  \<open>Errors\<close> counter plus the sum over its backends. For a service without backends whose
  own \<open>Errors\<close> counter is 1 that sum is 1, and \<open>Stats\<close> returns 0: the struct literal
  takes \<open>Sent\<close> and \<open>Rcvd\<close> from the service but not \<open>Errors\<close>.
\<close>

theorem Stats_drops_service_errors:
  "Errors (zero_Service\<lparr>Errors := 1\<rparr>)
     + sum_list (map b_Errors (Backends (zero_Service\<lparr>Errors := 1\<rparr>))) = 1 \<and>
   st_Errors (Stats (zero_Service\<lparr>Errors := 1\<rparr>)) = 0"
  by (simp add: Stats_def zero_Service_def)

section \<open>Equal, ignoring backends\<close>

text \<open>
  Claim C3. The claim asks that \<open>Equal\<close> normalise the defaults of both arguments, so
  that it is symmetric and an empty network equals tcp. \<open>Equal\<close> replaces an empty
  network in its receiver only: a configuration with an empty network equals the same
  configuration with network tcp, and not the other way round.
\<close>

theorem Equal_network_one_sided:
  "ServiceConfig_Equal zero_ServiceConfig (zero_ServiceConfig\<lparr>cfg_Network := ''tcp''\<rparr>) \<and>
   \<not> ServiceConfig_Equal (zero_ServiceConfig\<lparr>cfg_Network := ''tcp''\<rparr>) zero_ServiceConfig"
  by (simp add: ServiceConfig_Equal_def zero_ServiceConfig_def)

section \<open>add and the network family\<close>

text \<open>
  Claim C4. The claim asks that a backend whose network family differs from the
  service's is not added. \<open>add\<close> on a tcp service with a udp backend logs the error,
  appends the backend to the list all the same and starts it.
\<close>

theorem add_keeps_mismatched_backend:
  "add (zero_Service\<lparr>Network := ''tcp''\<rparr>) (zero_Backend\<lparr>b_Name := ''b1'', b_Network := ''udp''\<rparr>) =
     Inr ([LogNetworkError ''b1'' ''udp'',
           BackendStart (zero_Backend\<lparr>b_Name := ''b1'', b_Network := ''udp'', b_up := True\<rparr>)],
          zero_Service\<lparr>Network := ''tcp'',
            Backends := [zero_Backend\<lparr>b_Name := ''b1'', b_Network := ''udp'', b_up := True\<rparr>]\<rparr>)"
  by (simp add: add_def slice3_def zero_Service_def zero_Backend_def duration_of_ms_def Let_def)

section \<open>DeepEqual\<close>

lemma match_backend_True:
  "\<forall>b\<in>set others. bc_Name a = bc_Name b \<longrightarrow> BackendConfig_Equal a b \<Longrightarrow> match_backend a others"
  by (induction others) auto

lemma match_backends_True:
  "\<forall>a\<in>set as. \<forall>b\<in>set others. bc_Name a = bc_Name b \<longrightarrow> BackendConfig_Equal a b
   \<Longrightarrow> match_backends as others"
  by (induction as) (auto simp: match_backend_True)

text \<open>
  Claim C9. \<open>DeepEqual\<close> compares backends only pairwise by matching names: it
  returns true whenever the two configurations are \<open>Equal\<close> ignoring backends, their
  backend lists have the same length, and every pair of a backend of the first and a
  backend of the second with the same name compares \<open>Equal\<close>, also when a name occurs
  in one list only. Two configurations with one backend each, named a and b, are
  \<open>DeepEqual\<close>.
\<close>

theorem DeepEqual_matches_by_name:
  "(ServiceConfig_Equal s other \<and>
    length (elems (cfg_Backends s)) = length (elems (cfg_Backends other)) \<and>
    (\<forall>a\<in>set (elems (cfg_Backends s)). \<forall>b\<in>set (elems (cfg_Backends other)).
        bc_Name a = bc_Name b \<longrightarrow> BackendConfig_Equal a b)
    \<longrightarrow> ServiceConfig_DeepEqual s other) \<and>
   ServiceConfig_DeepEqual
     (zero_ServiceConfig\<lparr>cfg_Network := ''tcp'', cfg_Backends := Some [zero_BackendConfig\<lparr>bc_Name := ''a'', bc_Addr := ''10.0.0.1:80''\<rparr>]\<rparr>)
     (zero_ServiceConfig\<lparr>cfg_Network := ''tcp'', cfg_Backends := Some [zero_BackendConfig\<lparr>bc_Name := ''b'', bc_Addr := ''10.0.0.2:80''\<rparr>]\<rparr>)"
proof (intro conjI impI)
  assume "ServiceConfig_Equal s other \<and>
    length (elems (cfg_Backends s)) = length (elems (cfg_Backends other)) \<and>
    (\<forall>a\<in>set (elems (cfg_Backends s)). \<forall>b\<in>set (elems (cfg_Backends other)).
        bc_Name a = bc_Name b \<longrightarrow> BackendConfig_Equal a b)"
  then show "ServiceConfig_DeepEqual s other"
    by (simp add: ServiceConfig_DeepEqual_def match_backends_True)
next
  show "ServiceConfig_DeepEqual
     (zero_ServiceConfig\<lparr>cfg_Network := ''tcp'', cfg_Backends := Some [zero_BackendConfig\<lparr>bc_Name := ''a'', bc_Addr := ''10.0.0.1:80''\<rparr>]\<rparr>)
     (zero_ServiceConfig\<lparr>cfg_Network := ''tcp'', cfg_Backends := Some [zero_BackendConfig\<lparr>bc_Name := ''b'', bc_Addr := ''10.0.0.2:80''\<rparr>]\<rparr>)"
    by (simp add: ServiceConfig_DeepEqual_def elems_def
        ServiceConfig_Equal_def zero_ServiceConfig_def zero_BackendConfig_def)
qed

theorem DeepEqual_matches_by_name_witness:
  "ServiceConfig_Equal
     (zero_ServiceConfig\<lparr>cfg_Network := ''tcp'', cfg_Backends := Some [zero_BackendConfig\<lparr>bc_Name := ''a'', bc_Weight := 1\<rparr>,
                                             zero_BackendConfig\<lparr>bc_Name := ''c''\<rparr>]\<rparr>)
     (zero_ServiceConfig\<lparr>cfg_Network := ''tcp'', cfg_Backends := Some [zero_BackendConfig\<lparr>bc_Name := ''b''\<rparr>,
                                             zero_BackendConfig\<lparr>bc_Name := ''a'', bc_Network := ''tcp''\<rparr>]\<rparr>) \<and>
   ServiceConfig_DeepEqual
     (zero_ServiceConfig\<lparr>cfg_Network := ''tcp'', cfg_Backends := Some [zero_BackendConfig\<lparr>bc_Name := ''a'', bc_Weight := 1\<rparr>,
                                             zero_BackendConfig\<lparr>bc_Name := ''c''\<rparr>]\<rparr>)
     (zero_ServiceConfig\<lparr>cfg_Network := ''tcp'', cfg_Backends := Some [zero_BackendConfig\<lparr>bc_Name := ''b''\<rparr>,
                                             zero_BackendConfig\<lparr>bc_Name := ''a'', bc_Network := ''tcp''\<rparr>]\<rparr>)"
  using DeepEqual_matches_by_name
    [of "zero_ServiceConfig\<lparr>cfg_Network := ''tcp'', cfg_Backends := Some [zero_BackendConfig\<lparr>bc_Name := ''a'', bc_Weight := 1\<rparr>,
                                             zero_BackendConfig\<lparr>bc_Name := ''c''\<rparr>]\<rparr>"
        "zero_ServiceConfig\<lparr>cfg_Network := ''tcp'', cfg_Backends := Some [zero_BackendConfig\<lparr>bc_Name := ''b''\<rparr>,
                                             zero_BackendConfig\<lparr>bc_Name := ''a'', bc_Network := ''tcp''\<rparr>]\<rparr>"]
  by (simp add: ServiceConfig_Equal_def zero_ServiceConfig_def zero_BackendConfig_def elems_def
      BackendConfig_Equal_def)

section \<open>The backend list: add and remove\<close>

lemma find_name_Some:
  "find_name n bs = Some i \<Longrightarrow> i < length bs \<and> b_Name (bs ! i) = n"
  by (induction bs arbitrary: i) (auto split: if_splits)

lemma find_name_None: "(find_name n bs = None) = (n \<notin> b_Name ` set bs)"
  by (induction bs) auto

lemma distinct_names_update:
  assumes "distinct (map b_Name bs)" and "i < length bs" and "b_Name b = b_Name (bs ! i)"
  shows "distinct (map b_Name (bs[i := b]))"
proof -
  have "map b_Name (bs[i := b]) = map b_Name bs"
    using assms(2,3) by (simp add: map_update list_update_same_conv)
  then show ?thesis using assms(1) by simp
qed

lemma remove_slot:
  assumes d: "distinct (map b_Name bs)" and i: "i < length bs"
  shows "distinct (map b_Name (take (length bs - 1) (bs[i := bs ! (length bs - 1)])))
    \<and> set (take (length bs - 1) (bs[i := bs ! (length bs - 1)])) = set bs - {bs ! i}
    \<and> Suc (length (take (length bs - 1) (bs[i := bs ! (length bs - 1)]))) = length bs"
proof -
  from i obtain xs l where bs: "bs = xs @ [l]"
    by (cases bs rule: rev_cases) auto
  have dx: "distinct (map b_Name xs)" and lx: "b_Name l \<notin> b_Name ` set xs"
    using d by (auto simp: bs)
  have dxs: "distinct xs" and lxs: "l \<notin> set xs"
    using dx lx by (auto simp: distinct_map)
  show ?thesis
  proof (cases "i = length xs")
    case True
    then show ?thesis using dx lxs by (simp add: bs)
  next
    case False
    then have ix: "i < length xs" using i by (simp add: bs)
    have upd: "take (length bs - 1) (bs[i := bs ! (length bs - 1)]) = xs[i := l]"
      using ix by (simp add: bs list_update_append)
    have "distinct (map b_Name (xs[i := l]))"
      using dx lx ix by (simp add: map_update distinct_list_update)
    moreover have "set (xs[i := l]) = set bs - {bs ! i}"
      using dxs lxs ix by (auto simp: set_update_distinct bs nth_append)
    ultimately show ?thesis unfolding upd by (simp add: bs)
  qed
qed

lemma add_Inr:
  assumes "add s b = Inr (ev, s')"
  shows "\<exists>errs.
     (find_name (b_Name b) (Backends s) = None \<and>
      ev = errs @ [BackendStart (b\<lparr>b_up := True, b_rwTimeout := ServerTimeout s,
                      b_dialTimeout := DialTimeout s,
                      b_checkInterval := duration_of_ms (CheckInterval s)\<rparr>)] \<and>
      s' = s\<lparr>Backends := Backends s @ [b\<lparr>b_up := True, b_rwTimeout := ServerTimeout s,
                      b_dialTimeout := DialTimeout s,
                      b_checkInterval := duration_of_ms (CheckInterval s)\<rparr>]\<rparr>) \<or>
     (\<exists>i. find_name (b_Name b) (Backends s) = Some i \<and>
      ev = errs @ [BackendStop (Backends s ! i),
                   BackendStart (b\<lparr>b_up := True, b_rwTimeout := ServerTimeout s,
                      b_dialTimeout := DialTimeout s,
                      b_checkInterval := duration_of_ms (CheckInterval s)\<rparr>)] \<and>
      s' = s\<lparr>Backends := (Backends s)[i := b\<lparr>b_up := True, b_rwTimeout := ServerTimeout s,
                      b_dialTimeout := DialTimeout s,
                      b_checkInterval := duration_of_ms (CheckInterval s)\<rparr>]\<rparr>)"
  using assms by (auto simp: add_def Let_def split: sum.splits option.splits)

text \<open>
  Claim C8. Backend names are unique within a service, and \<open>add\<close> and \<open>remove\<close> keep
  them so. \<open>add\<close> with a name already present replaces that backend in place, at the
  index where it was, the list as long as before, and calls \<open>Stop\<close> on the old backend
  before \<open>Start\<close> on the new one; \<open>add\<close> with a fresh name appends. \<open>remove\<close>
  returns true exactly when a backend has the name; it then stops that backend and
  leaves the others, one fewer; it returns false, with the service untouched, exactly
  when no backend has the name.
\<close>

theorem backend_names_unique:
  assumes "distinct (map b_Name (Backends s))"
  shows
    "(add s b = Inr (ev, s') \<longrightarrow>
        distinct (map b_Name (Backends s')) \<and>
        s' = s\<lparr>Backends := Backends s'\<rparr> \<and>
        (\<exists>b'. b' = b\<lparr>b_up := True, b_rwTimeout := ServerTimeout s,
                      b_dialTimeout := DialTimeout s,
                      b_checkInterval := duration_of_ms (CheckInterval s)\<rparr> \<and>
           (b_Name b \<in> b_Name ` set (Backends s) \<longrightarrow>
              (\<exists>i<length (Backends s).
                  b_Name (Backends s ! i) = b_Name b \<and>
                  Backends s' = (Backends s)[i := b'] \<and>
                  length (Backends s') = length (Backends s) \<and>
                  (\<exists>errs. ev = errs @ [BackendStop (Backends s ! i), BackendStart b']))) \<and>
           (b_Name b \<notin> b_Name ` set (Backends s) \<longrightarrow>
              Backends s' = Backends s @ [b'] \<and>
              (\<exists>errs. ev = errs @ [BackendStart b'])))) \<and>
     (remove s name = (ok, ev2, s2) \<longrightarrow>
        distinct (map b_Name (Backends s2)) \<and>
        s2 = s\<lparr>Backends := Backends s2\<rparr> \<and>
        ok = (name \<in> b_Name ` set (Backends s)) \<and>
        (ok \<longrightarrow>
           Suc (length (Backends s2)) = length (Backends s) \<and>
           set (Backends s2) = {x \<in> set (Backends s). b_Name x \<noteq> name} \<and>
           (\<exists>d\<in>set (Backends s). b_Name d = name \<and> ev2 = [BackendStop d])) \<and>
        (\<not> ok \<longrightarrow> s2 = s \<and> ev2 = []))"
proof (intro conjI impI)
  assume a: "add s b = Inr (ev, s')"
  define b' where "b' = b\<lparr>b_up := True, b_rwTimeout := ServerTimeout s,
                      b_dialTimeout := DialTimeout s,
                      b_checkInterval := duration_of_ms (CheckInterval s)\<rparr>"
  have nb: "b_Name b' = b_Name b" by (simp add: b'_def)
  from add_Inr[OF a, folded b'_def] obtain errs where
    c: "(find_name (b_Name b) (Backends s) = None \<and> ev = errs @ [BackendStart b'] \<and>
         s' = s\<lparr>Backends := Backends s @ [b']\<rparr>) \<or>
        (\<exists>i. find_name (b_Name b) (Backends s) = Some i \<and>
           ev = errs @ [BackendStop (Backends s ! i), BackendStart b'] \<and>
           s' = s\<lparr>Backends := (Backends s)[i := b']\<rparr>)"
    by blast
  show "distinct (map b_Name (Backends s'))"
    using c
  proof (elim disjE conjE exE)
    assume "find_name (b_Name b) (Backends s) = None" "s' = s\<lparr>Backends := Backends s @ [b']\<rparr>"
    then show ?thesis using assms nb by (simp add: find_name_None)
  next
    fix i assume f: "find_name (b_Name b) (Backends s) = Some i"
      and "s' = s\<lparr>Backends := (Backends s)[i := b']\<rparr>"
    then show ?thesis using assms nb find_name_Some[OF f]
      by (simp add: distinct_names_update)
  qed
  show "s' = s\<lparr>Backends := Backends s'\<rparr>"
    using c by auto
  show "\<exists>b'. b' = b\<lparr>b_up := True, b_rwTimeout := ServerTimeout s,
                      b_dialTimeout := DialTimeout s,
                      b_checkInterval := duration_of_ms (CheckInterval s)\<rparr> \<and>
           (b_Name b \<in> b_Name ` set (Backends s) \<longrightarrow>
              (\<exists>i<length (Backends s).
                  b_Name (Backends s ! i) = b_Name b \<and>
                  Backends s' = (Backends s)[i := b'] \<and>
                  length (Backends s') = length (Backends s) \<and>
                  (\<exists>errs. ev = errs @ [BackendStop (Backends s ! i), BackendStart b']))) \<and>
           (b_Name b \<notin> b_Name ` set (Backends s) \<longrightarrow>
              Backends s' = Backends s @ [b'] \<and>
              (\<exists>errs. ev = errs @ [BackendStart b']))"
    unfolding b'_def[symmetric]
  proof (intro exI[of _ b'] conjI impI refl)
    assume "b_Name b \<in> b_Name ` set (Backends s)"
    then have "find_name (b_Name b) (Backends s) \<noteq> None"
      by (simp add: find_name_None)
    with c obtain i where f: "find_name (b_Name b) (Backends s) = Some i"
      and e: "ev = errs @ [BackendStop (Backends s ! i), BackendStart b']"
      and s': "s' = s\<lparr>Backends := (Backends s)[i := b']\<rparr>"
      by auto
    show "\<exists>i<length (Backends s).
                  b_Name (Backends s ! i) = b_Name b \<and>
                  Backends s' = (Backends s)[i := b'] \<and>
                  length (Backends s') = length (Backends s) \<and>
                  (\<exists>errs. ev = errs @ [BackendStop (Backends s ! i), BackendStart b'])"
      using find_name_Some[OF f] e s' by (intro exI[of _ i]) simp
  next
    assume "b_Name b \<notin> b_Name ` set (Backends s)"
    then have "find_name (b_Name b) (Backends s) = None"
      by (simp add: find_name_None)
    with c show "Backends s' = Backends s @ [b']" by auto
  next
    assume "b_Name b \<notin> b_Name ` set (Backends s)"
    then have "find_name (b_Name b) (Backends s) = None"
      by (simp add: find_name_None)
    with c show "\<exists>errs. ev = errs @ [BackendStart b']" by auto
  qed
next
  assume r: "remove s name = (ok, ev2, s2)"
  show "distinct (map b_Name (Backends s2))"
    using r assms remove_slot[of "Backends s"]
    by (auto simp: remove_def Let_def split: option.splits dest!: find_name_Some)
  show "s2 = s\<lparr>Backends := Backends s2\<rparr>"
    using r by (auto simp: remove_def Let_def split: option.splits)
  show "ok = (name \<in> b_Name ` set (Backends s))"
    using r find_name_None[of name "Backends s"]
    by (auto simp: remove_def Let_def split: option.splits)
  show "s2 = s" if "\<not> ok"
    using r that by (auto simp: remove_def Let_def split: option.splits)
  show "ev2 = []" if "\<not> ok"
    using r that by (auto simp: remove_def Let_def split: option.splits)
  have found: "Suc (length (Backends s2)) = length (Backends s) \<and>
           set (Backends s2) = {x \<in> set (Backends s). b_Name x \<noteq> name} \<and>
           (\<exists>d\<in>set (Backends s). b_Name d = name \<and> ev2 = [BackendStop d])" if ok
  proof -
    from that obtain i where f: "find_name name (Backends s) = Some i"
      using r by (auto simp: remove_def Let_def split: option.splits)
    note fi = find_name_Some[OF f]
    have s2: "Backends s2 = take (length (Backends s) - 1) ((Backends s)[i := Backends s ! (length (Backends s) - 1)])"
      and ev2: "ev2 = [BackendStop (Backends s ! i)]"
      using r f by (auto simp: remove_def Let_def)
    have i: "i < length (Backends s)" using fi by simp
    note rs = remove_slot[OF assms i, folded s2]
    have only: "{x \<in> set (Backends s). b_Name x \<noteq> name} = set (Backends s) - {Backends s ! i}"
    proof -
      have "\<And>x. x \<in> set (Backends s) \<Longrightarrow> b_Name x = name \<Longrightarrow> x = Backends s ! i"
        using assms fi by (metis distinct_map inj_onD nth_mem)
      then show ?thesis using fi by auto
    qed
    show ?thesis
      using rs fi only ev2 by auto
  qed
  show "Suc (length (Backends s2)) = length (Backends s)" if ok
    using found[OF that] by simp
  show "set (Backends s2) = {x \<in> set (Backends s). b_Name x \<noteq> name}" if ok
    using found[OF that] by simp
  show "\<exists>d\<in>set (Backends s). b_Name d = name \<and> ev2 = [BackendStop d]" if ok
    using found[OF that] by simp
qed

theorem backend_names_unique_witness:
  "distinct (map b_Name (Backends (web_service [tcp_backend ''a'' ''10.0.0.1:80'', tcp_backend ''b'' ''10.0.0.2:80'']))) \<and>
   add (web_service [tcp_backend ''a'' ''10.0.0.1:80'', tcp_backend ''b'' ''10.0.0.2:80''])
       (tcp_backend ''a'' ''10.0.0.9:80'') =
     Inr ([BackendStop (tcp_backend ''a'' ''10.0.0.1:80''),
           BackendStart ((tcp_backend ''a'' ''10.0.0.9:80'')\<lparr>b_up := True, b_checkInterval := 2000000000\<rparr>)],
          web_service [(tcp_backend ''a'' ''10.0.0.9:80'')\<lparr>b_up := True, b_checkInterval := 2000000000\<rparr>,
                       tcp_backend ''b'' ''10.0.0.2:80'']) \<and>
   remove (web_service [tcp_backend ''a'' ''10.0.0.1:80'', tcp_backend ''b'' ''10.0.0.2:80'']) ''a'' =
     (True, [BackendStop (tcp_backend ''a'' ''10.0.0.1:80'')],
      web_service [tcp_backend ''b'' ''10.0.0.2:80'']) \<and>
   distinct (map b_Name (Backends (web_service
      [(tcp_backend ''a'' ''10.0.0.9:80'')\<lparr>b_up := True, b_checkInterval := 2000000000\<rparr>,
       tcp_backend ''b'' ''10.0.0.2:80'']))) \<and>
   Suc (length (Backends (web_service [tcp_backend ''b'' ''10.0.0.2:80'']))) =
     length (Backends (web_service [tcp_backend ''a'' ''10.0.0.1:80'', tcp_backend ''b'' ''10.0.0.2:80'']))"
proof -
  let ?s = "web_service [tcp_backend ''a'' ''10.0.0.1:80'', tcp_backend ''b'' ''10.0.0.2:80'']"
  let ?b = "tcp_backend ''a'' ''10.0.0.9:80''"
  let ?b' = "?b\<lparr>b_up := True, b_checkInterval := 2000000000\<rparr>"
  let ?ev = "[BackendStop (tcp_backend ''a'' ''10.0.0.1:80''), BackendStart ?b']"
  let ?s' = "web_service [?b', tcp_backend ''b'' ''10.0.0.2:80'']"
  let ?ev2 = "[BackendStop (tcp_backend ''a'' ''10.0.0.1:80'')]"
  let ?s2 = "web_service [tcp_backend ''b'' ''10.0.0.2:80'']"
  have d: "distinct (map b_Name (Backends ?s))"
    by (simp add: web_service_def tcp_backend_def zero_Backend_def)
  have a: "add ?s ?b = Inr (?ev, ?s')"
    by (simp add: add_def slice3_def Let_def web_service_def tcp_backend_def zero_Backend_def
        zero_Service_def duration_of_ms_def Millisecond_def)
  have r: "remove ?s ''a'' = (True, ?ev2, ?s2)"
    by (simp add: remove_def Let_def web_service_def tcp_backend_def zero_Backend_def
        zero_Service_def)
  from backend_names_unique [OF d, of ?b ?ev ?s' "''a''" True ?ev2 ?s2] a r
  have "distinct (map b_Name (Backends ?s')) \<and> Suc (length (Backends ?s2)) = length (Backends ?s)"
    by blast
  with d a r show ?thesis by blast
qed

section \<open>The walk over the candidates in connectTCP\<close>





section \<open>The datagram loop\<close>

text \<open>
  Claim C5, as the code has it. In \<open>runUDP\<close>, for a datagram that is sent to a
  backend: on a temporary send error the loop logs a warning and goes on with the next
  datagram, \<open>Sent\<close> unchanged; on any other send error it logs an error, increments the
  service's \<open>Errors\<close> and goes on with the next datagram, \<open>Sent\<close> unchanged; on success
  \<open>Sent\<close> grows by the number of bytes written.
\<close>

theorem runUDP_send_outcomes:
  assumes "read_err t \<noteq> Some ClosedConnection" and "read_err t \<noteq> Some Permanent"
    and "read_n t \<noteq> 0" and "backend_found t"
  shows "(write_err t = Some Temporary \<longrightarrow>
            (\<exists>lg'. udp_body s t = (Continue, lg' @ [WARN], s\<lparr>Rcvd := Rcvd s + read_n t\<rparr>))) \<and>
         (write_err t \<noteq> None \<and> write_err t \<noteq> Some Temporary \<longrightarrow>
            (\<exists>lg'. udp_body s t =
               (Continue, lg' @ [ERROR], s\<lparr>Rcvd := Rcvd s + read_n t, Errors := Errors s + 1\<rparr>))) \<and>
         (write_err t = None \<longrightarrow>
            (\<exists>lg'. udp_body s t =
               (Continue, lg', s\<lparr>Rcvd := Rcvd s + read_n t, Sent := Sent s + write_n t\<rparr>))) \<and>
         runUDP s lg (t # ts) =
           runUDP (snd (snd (udp_body s t))) (lg @ fst (snd (udp_body s t))) ts"
  using assms by (auto simp: udp_body_def Let_def)

theorem runUDP_send_outcomes_witness:
  "runUDP (web_service []) [] [send_turn 5 (Some Temporary), send_turn 3 None] =
     (Continue, [WARN], (web_service [])\<lparr>Rcvd := 8, Sent := 3\<rparr>)"
proof -
  have h: "read_err (send_turn 5 (Some Temporary)) \<noteq> Some ClosedConnection"
    "read_err (send_turn 5 (Some Temporary)) \<noteq> Some Permanent"
    "read_n (send_turn 5 (Some Temporary)) \<noteq> 0"
    "backend_found (send_turn 5 (Some Temporary))"
    by (simp_all add: send_turn_def zero_udp_turn_def)
  have b1: "udp_body (web_service []) (send_turn 5 (Some Temporary)) =
          (Continue, [WARN], (web_service [])\<lparr>Rcvd := 5\<rparr>)"
    by (simp add: udp_body_def send_turn_def zero_udp_turn_def web_service_def zero_Service_def)
  have b2: "udp_body ((web_service [])\<lparr>Rcvd := 5\<rparr>) (send_turn 3 None) =
          (Continue, [], (web_service [])\<lparr>Rcvd := 8, Sent := 3\<rparr>)"
    by (simp add: udp_body_def send_turn_def zero_udp_turn_def web_service_def zero_Service_def)
  have step: "runUDP (web_service []) [] [send_turn 5 (Some Temporary), send_turn 3 None] =
      runUDP (snd (snd (udp_body (web_service []) (send_turn 5 (Some Temporary)))))
        ([] @ fst (snd (udp_body (web_service []) (send_turn 5 (Some Temporary)))))
        [send_turn 3 None]"
    using runUDP_send_outcomes [OF h, of "web_service []" "[]" "[send_turn 3 None]"]
    by (elim conjE)
  show ?thesis
    by (simp only: step b1 snd_conv fst_conv append_Nil) (simp add: b2)
qed

text \<open>
  After a send error that is not temporary the loop has not returned: it receives and
  sends the next datagram.
\<close>

theorem runUDP_permanent_send_error_counterexample:
  "fst (runUDP (web_service []) [] [send_turn 5 (Some Permanent)]) \<noteq> Return \<and>
   runUDP (web_service []) [] [send_turn 5 (Some Permanent), send_turn 3 None] =
     (Continue, [ERROR], (web_service [])\<lparr>Rcvd := 8, Errors := 1, Sent := 3\<rparr>)"
  by (simp add: udp_body_def send_turn_def zero_udp_turn_def web_service_def zero_Service_def)

section \<open>The configuration round trip\<close>

text \<open>Milliseconds read back from a duration survive the conversion to a duration.\<close>

lemma sint_word_of_int_64:
  "- (2 ^ 63) \<le> x \<Longrightarrow> x < 2 ^ 63 \<Longrightarrow> sint (word_of_int x :: 64 word) = x"
  by (simp add: sint_sbintrunc' signed_take_bit_int_eq_self)

lemma trunc_ms_bounds:
  fixes d :: Duration
  shows "- (2 ^ 63) \<le> (sint d sdiv 1000000) * 1000000"
    and "(sint d sdiv 1000000) * 1000000 < 2 ^ 63"
proof -
  have lo: "- (2 ^ 63) \<le> sint d" using sint_ge[of d] by simp
  have hi: "sint d < 2 ^ 63" using sint_lt[of d] by simp
  have k: "sint d sdiv 1000000 = sgn (sint d) * (\<bar>sint d\<bar> div 1000000)"
    by (simp add: signed_divide_int_def)
  have b: "(\<bar>sint d\<bar> div 1000000) * 1000000 \<le> \<bar>sint d\<bar>"
    by simp
  show "- (2 ^ 63) \<le> (sint d sdiv 1000000) * 1000000"
    using lo hi b unfolding k by (cases "sint d < 0") (auto simp: sgn_if)
  show "(sint d sdiv 1000000) * 1000000 < 2 ^ 63"
    using lo hi b unfolding k by (cases "sint d < 0") (auto simp: sgn_if)
qed

lemma ms_of_duration_fixpoint:
  "ms_of_duration (duration_of_ms (ms_of_duration d)) = ms_of_duration d"
proof -
  define k where "k = sint d sdiv (1000000 :: int)"
  have m: "ms_of_duration d = word_of_int k"
    by (simp add: ms_of_duration_def Millisecond_def k_def)
  have w: "duration_of_ms (ms_of_duration d) = (word_of_int (k * 1000000) :: 64 word)"
    by (simp add: duration_of_ms_def m Millisecond_def)
  have "sint (word_of_int (k * 1000000) :: 64 word) = k * 1000000"
    using trunc_ms_bounds[of d] unfolding k_def[symmetric] by (rule sint_word_of_int_64)
  then have s: "sint (duration_of_ms (ms_of_duration d)) = k * 1000000"
    by (simp only: w)
  have q: "(k * 1000000) sdiv 1000000 = k"
    by (simp add: signed_divide_int_def sgn_mult abs_mult) (simp add: sgn_if)
  have sm: "sint Millisecond = 1000000" by (simp add: Millisecond_def)
  have "ms_of_duration (duration_of_ms (ms_of_duration d)) = word_of_int ((k * 1000000) sdiv 1000000)"
    by (simp only: ms_of_duration_def[of "duration_of_ms (ms_of_duration d)"] s sm)
  then show ?thesis by (simp only: q m)
qed

text \<open>The loop of \<open>Config\<close> in closed form.\<close>

lemma Config_foldl:
  "foldl (\<lambda>config b. config
            \<lparr> cfg_Backends := append_slice (cfg_Backends config) (Backend_Config b) \<rparr>) c bs =
   c \<lparr> cfg_Backends := (if bs = [] then cfg_Backends c
                         else Some (elems (cfg_Backends c) @ map Backend_Config bs)) \<rparr>"
proof (induction bs arbitrary: c)
  case Nil
  show ?case by simp
next
  case (Cons b bs)
  show ?case
    by (simp only: foldl_Cons Cons.IH) (simp add: append_slice_def elems_def)
qed

lemma Config_eq:
  "Config s =
     \<lparr> cfg_Name = Name s,
       cfg_Addr = Addr s,
       cfg_VirtualHosts = VirtualHosts s,
       cfg_Balance = Balance s,
       cfg_CheckInterval = CheckInterval s,
       cfg_Fall = Fall s,
       cfg_Rise = Rise s,
       cfg_ClientTimeout = ms_of_duration (ClientTimeout s),
       cfg_ServerTimeout = ms_of_duration (ServerTimeout s),
       cfg_DialTimeout = ms_of_duration (DialTimeout s),
       cfg_ErrorPages = errPagesCfg s,
       cfg_Network = Network s,
       cfg_Backends = (if Backends s = [] then None
                       else Some (map Backend_Config (Backends s))) \<rparr>"
  by (simp add: Config_def Config_foldl elems_def)

lemma elems_Config_Backends: "elems (cfg_Backends (Config s)) = map Backend_Config (Backends s)"
  by (simp add: Config_eq elems_def)

text \<open>What a successful \<open>add\<close> leaves behind.\<close>

lemma add_keeps:
  assumes "add s b = Inr (ev, s')" and "distinct (map b_Name (Backends s))"
  shows "s' = s\<lparr>Backends := Backends s'\<rparr>"
    and "distinct (map b_Name (Backends s'))"
    and "3 \<le> length (Network s)"
    and "\<forall>x\<in>set (Backends s'). x \<in> set (Backends s) \<or>
           (b_Weight x = b_Weight b \<and> b_Network x = b_Network b \<and> 3 \<le> length (b_Network b))"
proof -
  define b' where "b' = b\<lparr>b_up := True, b_rwTimeout := ServerTimeout s,
                      b_dialTimeout := DialTimeout s,
                      b_checkInterval := duration_of_ms (CheckInterval s)\<rparr>"
  have nb: "b_Name b' = b_Name b" "b_Weight b' = b_Weight b" "b_Network b' = b_Network b"
    by (simp_all add: b'_def)
  have len: "3 \<le> length (Network s) \<and> 3 \<le> length (b_Network b)"
    using assms(1) by (auto simp: add_def slice3_def Let_def split: sum.splits if_splits)
  from add_Inr[OF assms(1), folded b'_def] obtain errs where
    c: "(find_name (b_Name b) (Backends s) = None \<and> ev = errs @ [BackendStart b'] \<and>
         s' = s\<lparr>Backends := Backends s @ [b']\<rparr>) \<or>
        (\<exists>i. find_name (b_Name b) (Backends s) = Some i \<and>
           ev = errs @ [BackendStop (Backends s ! i), BackendStart b'] \<and>
           s' = s\<lparr>Backends := (Backends s)[i := b']\<rparr>)"
    by blast
  show "s' = s\<lparr>Backends := Backends s'\<rparr>" using c by auto
  show "3 \<le> length (Network s)" using len by simp
  show "distinct (map b_Name (Backends s'))"
    using c
  proof (elim disjE conjE exE)
    assume "find_name (b_Name b) (Backends s) = None" "s' = s\<lparr>Backends := Backends s @ [b']\<rparr>"
    then show ?thesis using assms(2) nb by (simp add: find_name_None)
  next
    fix i assume f: "find_name (b_Name b) (Backends s) = Some i"
      and "s' = s\<lparr>Backends := (Backends s)[i := b']\<rparr>"
    then show ?thesis using assms(2) nb find_name_Some[OF f]
      by (simp add: distinct_names_update)
  qed
  show "\<forall>x\<in>set (Backends s'). x \<in> set (Backends s) \<or>
           (b_Weight x = b_Weight b \<and> b_Network x = b_Network b \<and> 3 \<le> length (b_Network b))"
    using c
  proof (elim disjE conjE exE)
    assume "s' = s\<lparr>Backends := Backends s @ [b']\<rparr>"
    then show ?thesis using nb len by auto
  next
    fix i assume "s' = s\<lparr>Backends := (Backends s)[i := b']\<rparr>"
    then show ?thesis using nb len set_update_subset_insert[of "Backends s" i b'] by auto
  qed
qed

lemma add_backends_keeps:
  assumes "add_backends s cs = Inr (ev, s')" and "distinct (map b_Name (Backends s))"
    and "\<forall>x\<in>set (Backends s). b_Weight x \<noteq> 0 \<and> 3 \<le> length (b_Network x)"
  shows "s' = s\<lparr>Backends := Backends s'\<rparr> \<and>
         distinct (map b_Name (Backends s')) \<and>
         (\<forall>x\<in>set (Backends s'). b_Weight x \<noteq> 0 \<and> 3 \<le> length (b_Network x)) \<and>
         (cs = [] \<longrightarrow> Backends s' = Backends s) \<and>
         (cs \<noteq> [] \<longrightarrow> 3 \<le> length (Network s))"
  using assms
proof (induction cs arbitrary: s ev)
  case Nil
  then show ?case by simp
next
  case (Cons c cs)
  from Cons.prems(1) obtain ev1 s1 ev2 where
    a: "add s (NewBackend c) = Inr (ev1, s1)" and r: "add_backends s1 cs = Inr (ev2, s')"
    by (auto split: sum.splits prod.splits)
  note k = add_keeps[OF a Cons.prems(2)]
  have w: "b_Weight (NewBackend c) \<noteq> 0" by (simp add: NewBackend_def)
  have p: "\<forall>x\<in>set (Backends s1). b_Weight x \<noteq> 0 \<and> 3 \<le> length (b_Network x)"
    using k(4) Cons.prems(3) w by auto
  note ih = Cons.IH[OF r k(2) p]
  have "s' = s\<lparr>Backends := Backends s'\<rparr>"
    using ih k(1) by (metis Service.surjective Service.update_convs(4))
  then show ?case using ih k(3) by simp
qed

text \<open>Adding back the configurations read from a service appends them in order.\<close>

lemma add_fresh:
  assumes "3 \<le> length (Network s)" and "3 \<le> length (b_Network b)"
    and "b_Name b \<notin> b_Name ` set (Backends s)"
  shows "\<exists>ev b'. add s b = Inr (ev, s\<lparr>Backends := Backends s @ [b']\<rparr>) \<and>
                 Backend_Config b' = Backend_Config b"
proof -
  have "find_name (b_Name b) (Backends s) = None"
    using assms(3) by (simp add: find_name_None)
  then have "add s b =
      Inr ((if take 3 (Network s) \<noteq> take 3 (b_Network b)
            then [LogNetworkError (b_Name b) (b_Network b)] else []) @
           [BackendStart (b\<lparr>b_up := True, b_rwTimeout := ServerTimeout s,
                      b_dialTimeout := DialTimeout s,
                      b_checkInterval := duration_of_ms (CheckInterval s)\<rparr>)],
           s\<lparr>Backends := Backends s @ [b\<lparr>b_up := True, b_rwTimeout := ServerTimeout s,
                      b_dialTimeout := DialTimeout s,
                      b_checkInterval := duration_of_ms (CheckInterval s)\<rparr>]\<rparr>)"
    using assms(1,2) by (simp add: add_def slice3_def Let_def)
  moreover have "Backend_Config (b\<lparr>b_up := True, b_rwTimeout := ServerTimeout s,
                      b_dialTimeout := DialTimeout s,
                      b_checkInterval := duration_of_ms (CheckInterval s)\<rparr>) = Backend_Config b"
    by (simp add: Backend_Config_def)
  ultimately show ?thesis by blast
qed

lemma Backend_Config_NewBackend:
  "bc_Weight c \<noteq> 0 \<Longrightarrow> bc_Network c \<noteq> [] \<Longrightarrow> Backend_Config (NewBackend c) = c"
  by (simp add: Backend_Config_def NewBackend_def)

lemma add_backends_fresh:
  assumes "cs \<noteq> [] \<longrightarrow> 3 \<le> length (Network s)"
    and "distinct (map bc_Name cs)"
    and "b_Name ` set (Backends s) \<inter> bc_Name ` set cs = {}"
    and "\<forall>c\<in>set cs. bc_Weight c \<noteq> 0 \<and> 3 \<le> length (bc_Network c)"
  shows "\<exists>ev bs'. add_backends s cs = Inr (ev, s\<lparr>Backends := bs'\<rparr>) \<and>
                  map Backend_Config bs' = map Backend_Config (Backends s) @ cs"
  using assms
proof (induction cs arbitrary: s)
  case Nil
  show ?case by (simp add: exI[of _ "Backends s"])
next
  case (Cons c cs)
  have cw: "bc_Weight c \<noteq> 0" and cn: "3 \<le> length (bc_Network c)"
    using Cons.prems(4) by simp_all
  then have bc: "Backend_Config (NewBackend c) = c"
    by (intro Backend_Config_NewBackend) auto
  have nm: "b_Name (NewBackend c) = bc_Name c" and nw: "b_Network (NewBackend c) = bc_Network c"
    using cn by (auto simp: NewBackend_def)
  have fresh: "b_Name (NewBackend c) \<notin> b_Name ` set (Backends s)"
    using Cons.prems(3) nm by auto
  from add_fresh[OF _ _ fresh] Cons.prems(1) cn nw obtain ev1 b' where
    a: "add s (NewBackend c) = Inr (ev1, s\<lparr>Backends := Backends s @ [b']\<rparr>)"
    and b': "Backend_Config b' = c"
    using bc by auto
  let ?s1 = "s\<lparr>Backends := Backends s @ [b']\<rparr>"
  have nb': "b_Name b' = bc_Name c"
    using b' by (auto simp: Backend_Config_def)
  have p1: "cs \<noteq> [] \<longrightarrow> 3 \<le> length (Network ?s1)" using Cons.prems(1) by simp
  have p2: "distinct (map bc_Name cs)" using Cons.prems(2) by simp
  have p3: "b_Name ` set (Backends ?s1) \<inter> bc_Name ` set cs = {}"
    using Cons.prems(2,3) nb' by auto
  have p4: "\<forall>c\<in>set cs. bc_Weight c \<noteq> 0 \<and> 3 \<le> length (bc_Network c)"
    using Cons.prems(4) by simp
  from Cons.IH[OF p1 p2 p3 p4] obtain ev2 bs' where
    r: "add_backends ?s1 cs = Inr (ev2, ?s1\<lparr>Backends := bs'\<rparr>)"
    and m: "map Backend_Config bs' = map Backend_Config (Backends ?s1) @ cs"
    by blast
  have "add_backends s (c # cs) = Inr (ev1 @ ev2, s\<lparr>Backends := bs'\<rparr>)"
    using a r by simp
  moreover have "map Backend_Config bs' = map Backend_Config (Backends s) @ c # cs"
    using m b' by simp
  ultimately show ?case by blast
qed

text \<open>\<open>NewService\<close> with the defaults written into the struct literal.\<close>

lemma NewService_eq:
  "NewService cfg =
     (case add_backends
        \<lparr> Name = cfg_Name cfg,
          Addr = cfg_Addr cfg,
          VirtualHosts = cfg_VirtualHosts cfg,
          Backends = [],
          Balance = cfg_Balance cfg,
          CheckInterval = (if cfg_CheckInterval cfg = 0 then 2000 else cfg_CheckInterval cfg),
          Fall = (if cfg_Fall cfg = 0 then 2 else cfg_Fall cfg),
          Rise = (if cfg_Rise cfg = 0 then 2 else cfg_Rise cfg),
          ClientTimeout = duration_of_ms (cfg_ClientTimeout cfg),
          ServerTimeout = duration_of_ms (cfg_ServerTimeout cfg),
          DialTimeout = duration_of_ms (cfg_DialTimeout cfg),
          Sent = 0, Rcvd = 0, Errors = 0,
          HTTPConns = 0, HTTPErrors = 0, HTTPActive = 0,
          Network = (if cfg_Network cfg = [] then ''tcp'' else cfg_Network cfg),
          nextfn = None,
          lastBackend = 0,
          lastCount = 0,
          errPagesCfg = cfg_ErrorPages cfg \<rparr>
        (elems (cfg_Backends cfg)) of
        Inl p \<Rightarrow> Inl p
      | Inr (ev, s) \<Rightarrow>
          Inr (ev,
               if cfg_Balance cfg = ''RR'' \<or> cfg_Balance cfg = [] then s\<lparr>nextfn := Some roundRobin\<rparr>
               else if cfg_Balance cfg = ''LC'' then s\<lparr>nextfn := Some leastConn\<rparr>
               else s))"
  by (simp add: NewService_def Let_def)

text \<open>What holds of every service that \<open>NewService\<close> returns.\<close>

lemma NewService_built:
  assumes "NewService cfg = Inr (ev, s)"
  shows "CheckInterval s \<noteq> 0 \<and> Rise s \<noteq> 0 \<and> Fall s \<noteq> 0 \<and> Network s \<noteq> [] \<and>
         distinct (map b_Name (Backends s)) \<and>
         (\<forall>x\<in>set (Backends s). b_Weight x \<noteq> 0 \<and> 3 \<le> length (b_Network x)) \<and>
         (Backends s \<noteq> [] \<longrightarrow> 3 \<le> length (Network s))"
proof -
  define s0 where "s0 =
        \<lparr> Name = cfg_Name cfg,
          Addr = cfg_Addr cfg,
          VirtualHosts = cfg_VirtualHosts cfg,
          Backends = [],
          Balance = cfg_Balance cfg,
          CheckInterval = (if cfg_CheckInterval cfg = 0 then 2000 else cfg_CheckInterval cfg),
          Fall = (if cfg_Fall cfg = 0 then 2 else cfg_Fall cfg),
          Rise = (if cfg_Rise cfg = 0 then 2 else cfg_Rise cfg),
          ClientTimeout = duration_of_ms (cfg_ClientTimeout cfg),
          ServerTimeout = duration_of_ms (cfg_ServerTimeout cfg),
          DialTimeout = duration_of_ms (cfg_DialTimeout cfg),
          Sent = 0, Rcvd = 0, Errors = 0,
          HTTPConns = 0, HTTPErrors = 0, HTTPActive = 0,
          Network = (if cfg_Network cfg = [] then ''tcp'' else cfg_Network cfg),
          nextfn = None,
          lastBackend = 0,
          lastCount = 0,
          errPagesCfg = cfg_ErrorPages cfg \<rparr>"
  have b0: "Backends s0 = []" and c0: "CheckInterval s0 \<noteq> 0" and r0: "Rise s0 \<noteq> 0"
    and f0: "Fall s0 \<noteq> 0" and n0: "Network s0 \<noteq> []"
    by (simp_all add: s0_def)
  have ns: "NewService cfg =
     (case add_backends s0 (elems (cfg_Backends cfg)) of
        Inl p \<Rightarrow> Inl p
      | Inr (ev, s) \<Rightarrow>
          Inr (ev,
               if cfg_Balance cfg = ''RR'' \<or> cfg_Balance cfg = [] then s\<lparr>nextfn := Some roundRobin\<rparr>
               else if cfg_Balance cfg = ''LC'' then s\<lparr>nextfn := Some leastConn\<rparr>
               else s))"
    unfolding s0_def by (rule NewService_eq)
  obtain s1 where
    a: "add_backends s0 (elems (cfg_Backends cfg)) = Inr (ev, s1)"
    and s: "s = s1 \<or> s = s1\<lparr>nextfn := Some roundRobin\<rparr> \<or> s = s1\<lparr>nextfn := Some leastConn\<rparr>"
  proof (cases "add_backends s0 (elems (cfg_Backends cfg))")
    case (Inl p)
    then show ?thesis using assms by (simp add: ns)
  next
    case (Inr r)
    obtain e1 s1 where r: "r = (e1, s1)" by (cases r)
    show ?thesis
      using assms that[of s1] by (simp add: ns Inr r split: if_splits)
  qed
  have "distinct (map b_Name (Backends s0))"
    and "\<forall>x\<in>set (Backends s0). b_Weight x \<noteq> 0 \<and> 3 \<le> length (b_Network x)"
    by (simp_all add: b0)
  note kk = add_backends_keeps[OF a this]
  note k = kk[THEN conjunct1] kk[THEN conjunct2, THEN conjunct1]
    kk[THEN conjunct2, THEN conjunct2, THEN conjunct1]
    kk[THEN conjunct2, THEN conjunct2, THEN conjunct2, THEN conjunct1]
    kk[THEN conjunct2, THEN conjunct2, THEN conjunct2, THEN conjunct2]
  have f1: "CheckInterval s1 = CheckInterval s0" "Rise s1 = Rise s0" "Fall s1 = Fall s0"
    "Network s1 = Network s0"
  proof -
    show "CheckInterval s1 = CheckInterval s0" by (subst k(1)) simp
    show "Rise s1 = Rise s0" by (subst k(1)) simp
    show "Fall s1 = Fall s0" by (subst k(1)) simp
    show "Network s1 = Network s0" by (subst k(1)) simp
  qed
  have f: "CheckInterval s = CheckInterval s1" "Rise s = Rise s1" "Fall s = Fall s1"
    "Network s = Network s1" "Backends s = Backends s1"
    using s by auto
  have "Backends s1 \<noteq> [] \<longrightarrow> 3 \<le> length (Network s0)"
    using k(4,5) b0 by auto
  then show ?thesis
    using k(2,3) c0 r0 f0 n0 by (simp add: f f1)
qed

text \<open>A service with its defaults filled in and its backends as \<open>NewBackend\<close> and
  \<open>add\<close> leave them is rebuilt from its own configuration.\<close>

lemma Config_rebuild:
  assumes ci: "CheckInterval s \<noteq> 0" and ri: "Rise s \<noteq> 0" and fa: "Fall s \<noteq> 0"
    and nw: "Network s \<noteq> []"
    and di: "distinct (map b_Name (Backends s))"
    and wf: "\<forall>x\<in>set (Backends s). b_Weight x \<noteq> 0 \<and> 3 \<le> length (b_Network x)"
    and ln: "Backends s \<noteq> [] \<longrightarrow> 3 \<le> length (Network s)"
  shows "\<exists>ev' s'. NewService (Config s) = Inr (ev', s') \<and> Config s' = Config s"
proof -
  define s0 where "s0 =
        \<lparr> Name = Name s,
          Addr = Addr s,
          VirtualHosts = VirtualHosts s,
          Backends = [],
          Balance = Balance s,
          CheckInterval = CheckInterval s,
          Fall = Fall s,
          Rise = Rise s,
          ClientTimeout = duration_of_ms (ms_of_duration (ClientTimeout s)),
          ServerTimeout = duration_of_ms (ms_of_duration (ServerTimeout s)),
          DialTimeout = duration_of_ms (ms_of_duration (DialTimeout s)),
          Sent = 0, Rcvd = 0, Errors = 0,
          HTTPConns = 0, HTTPErrors = 0, HTTPActive = 0,
          Network = Network s,
          nextfn = None,
          lastBackend = 0,
          lastCount = 0,
          errPagesCfg = errPagesCfg s \<rparr>"
  let ?cs = "map Backend_Config (Backends s)"
  have ns: "NewService (Config s) =
     (case add_backends s0 ?cs of
        Inl p \<Rightarrow> Inl p
      | Inr (ev, s1) \<Rightarrow>
          Inr (ev,
               if Balance s = ''RR'' \<or> Balance s = [] then s1\<lparr>nextfn := Some roundRobin\<rparr>
               else if Balance s = ''LC'' then s1\<lparr>nextfn := Some leastConn\<rparr>
               else s1))"
  proof -
    have fields:
      "cfg_Name (Config s) = Name s" "cfg_Addr (Config s) = Addr s"
      "cfg_VirtualHosts (Config s) = VirtualHosts s" "cfg_Balance (Config s) = Balance s"
      "cfg_CheckInterval (Config s) = CheckInterval s" "cfg_Fall (Config s) = Fall s"
      "cfg_Rise (Config s) = Rise s"
      "cfg_ClientTimeout (Config s) = ms_of_duration (ClientTimeout s)"
      "cfg_ServerTimeout (Config s) = ms_of_duration (ServerTimeout s)"
      "cfg_DialTimeout (Config s) = ms_of_duration (DialTimeout s)"
      "cfg_ErrorPages (Config s) = errPagesCfg s" "cfg_Network (Config s) = Network s"
      by (simp_all add: Config_eq)
    have defaults:
      "(if CheckInterval s = 0 then 2000 else CheckInterval s) = CheckInterval s"
      "(if Fall s = 0 then 2 else Fall s) = Fall s"
      "(if Rise s = 0 then 2 else Rise s) = Rise s"
      "(if Network s = [] then ''tcp'' else Network s) = Network s"
      using ci ri fa nw by simp_all
    show ?thesis
      unfolding NewService_eq[of "Config s"] fields elems_Config_Backends defaults s0_def
      by (rule refl)
  qed
  have p1: "?cs \<noteq> [] \<longrightarrow> 3 \<le> length (Network s0)"
    using ln by (simp add: s0_def)
  have nm: "map bc_Name ?cs = map b_Name (Backends s)"
    by (simp add: Backend_Config_def)
  have p2: "distinct (map bc_Name ?cs)"
    using di by (simp only: nm)
  have p3: "b_Name ` set (Backends s0) \<inter> bc_Name ` set ?cs = {}"
    by (simp add: s0_def)
  have p4: "\<forall>c\<in>set ?cs. bc_Weight c \<noteq> 0 \<and> 3 \<le> length (bc_Network c)"
    using wf by (simp add: Backend_Config_def)
  from add_backends_fresh[OF p1 p2 p3 p4] obtain ev' bs' where
    a: "add_backends s0 ?cs = Inr (ev', s0\<lparr>Backends := bs'\<rparr>)"
    and m: "map Backend_Config bs' = map Backend_Config (Backends s0) @ ?cs"
    by blast
  have m': "map Backend_Config bs' = ?cs"
    using m by (simp add: s0_def)
  have e: "(bs' = []) = (Backends s = [])"
  proof -
    have "length bs' = length (Backends s)"
      using arg_cong[OF m', of length] by simp
    then show ?thesis by (cases bs'; cases "Backends s") simp_all
  qed
  define s' where "s' =
      (if Balance s = ''RR'' \<or> Balance s = [] then s0\<lparr>Backends := bs', nextfn := Some roundRobin\<rparr>
       else if Balance s = ''LC'' then s0\<lparr>Backends := bs', nextfn := Some leastConn\<rparr>
       else s0\<lparr>Backends := bs'\<rparr>)"
  have r: "NewService (Config s) = Inr (ev', s')"
    by (simp add: ns a s'_def)
  have fs: "Name s' = Name s" "Addr s' = Addr s" "VirtualHosts s' = VirtualHosts s"
    "Balance s' = Balance s" "CheckInterval s' = CheckInterval s" "Fall s' = Fall s"
    "Rise s' = Rise s"
    "ClientTimeout s' = duration_of_ms (ms_of_duration (ClientTimeout s))"
    "ServerTimeout s' = duration_of_ms (ms_of_duration (ServerTimeout s))"
    "DialTimeout s' = duration_of_ms (ms_of_duration (DialTimeout s))"
    "errPagesCfg s' = errPagesCfg s" "Network s' = Network s" "Backends s' = bs'"
    by (simp_all add: s'_def s0_def)
  have "Config s' = Config s"
    unfolding Config_eq fs by (simp add: m' e ms_of_duration_fixpoint)
  with r show ?thesis by blast
qed

text \<open>
  Claim C1. Configuration snapshots round-trip at the level of a service: for every
  service \<open>s\<close> that \<open>NewService\<close> builds (it returns, without a panic in \<open>add\<close>),
  \<open>NewService\<close> applied to \<open>s.Config()\<close> builds a service too, and the \<open>Config()\<close> of
  that service is identical to \<open>s.Config()\<close>: the defaults, the timeouts converted to
  durations and back, and the backend list are a fixpoint after the first application.
\<close>

theorem NewService_Config_roundtrip:
  assumes "NewService cfg = Inr (ev, s)"
  shows "\<exists>ev' s'. NewService (Config s) = Inr (ev', s') \<and> Config s' = Config s"
proof -
  note b = NewService_built[OF assms]
  show ?thesis
    by (rule Config_rebuild)
       (rule b[THEN conjunct1] b[THEN conjunct2, THEN conjunct1]
          b[THEN conjunct2, THEN conjunct2, THEN conjunct1]
          b[THEN conjunct2, THEN conjunct2, THEN conjunct2, THEN conjunct1]
          b[THEN conjunct2, THEN conjunct2, THEN conjunct2, THEN conjunct2, THEN conjunct1]
          b[THEN conjunct2, THEN conjunct2, THEN conjunct2, THEN conjunct2, THEN conjunct2, THEN conjunct1]
          b[THEN conjunct2, THEN conjunct2, THEN conjunct2, THEN conjunct2, THEN conjunct2, THEN conjunct2])+
qed

theorem NewService_Config_roundtrip_witness:
  "NewService (zero_ServiceConfig\<lparr>cfg_Name := ''web'', cfg_ClientTimeout := 5000,
       cfg_Backends := Some [zero_BackendConfig\<lparr>bc_Name := ''a'', bc_Addr := ''10.0.0.1:80''\<rparr>]\<rparr>) =
     Inr ([BackendStart (zero_Backend\<lparr>b_Name := ''a'', b_Addr := ''10.0.0.1:80'', b_Weight := 1,
              b_Network := ''tcp'', b_up := True, b_checkInterval := 2000000000\<rparr>)],
          zero_Service\<lparr>Name := ''web'', CheckInterval := 2000, Fall := 2, Rise := 2,
            ClientTimeout := 5000000000, Network := ''tcp'', nextfn := Some roundRobin,
            Backends := [zero_Backend\<lparr>b_Name := ''a'', b_Addr := ''10.0.0.1:80'', b_Weight := 1,
              b_Network := ''tcp'', b_up := True, b_checkInterval := 2000000000\<rparr>]\<rparr>) \<and>
   (\<exists>ev' s'.
      NewService (Config (zero_Service\<lparr>Name := ''web'', CheckInterval := 2000, Fall := 2, Rise := 2,
            ClientTimeout := 5000000000, Network := ''tcp'', nextfn := Some roundRobin,
            Backends := [zero_Backend\<lparr>b_Name := ''a'', b_Addr := ''10.0.0.1:80'', b_Weight := 1,
              b_Network := ''tcp'', b_up := True, b_checkInterval := 2000000000\<rparr>]\<rparr>)) = Inr (ev', s') \<and>
      Config s' = Config (zero_Service\<lparr>Name := ''web'', CheckInterval := 2000, Fall := 2, Rise := 2,
            ClientTimeout := 5000000000, Network := ''tcp'', nextfn := Some roundRobin,
            Backends := [zero_Backend\<lparr>b_Name := ''a'', b_Addr := ''10.0.0.1:80'', b_Weight := 1,
              b_Network := ''tcp'', b_up := True, b_checkInterval := 2000000000\<rparr>]\<rparr>))"
proof -
  have a: "NewService (zero_ServiceConfig\<lparr>cfg_Name := ''web'', cfg_ClientTimeout := 5000,
       cfg_Backends := Some [zero_BackendConfig\<lparr>bc_Name := ''a'', bc_Addr := ''10.0.0.1:80''\<rparr>]\<rparr>) =
     Inr ([BackendStart (zero_Backend\<lparr>b_Name := ''a'', b_Addr := ''10.0.0.1:80'', b_Weight := 1,
              b_Network := ''tcp'', b_up := True, b_checkInterval := 2000000000\<rparr>)],
          zero_Service\<lparr>Name := ''web'', CheckInterval := 2000, Fall := 2, Rise := 2,
            ClientTimeout := 5000000000, Network := ''tcp'', nextfn := Some roundRobin,
            Backends := [zero_Backend\<lparr>b_Name := ''a'', b_Addr := ''10.0.0.1:80'', b_Weight := 1,
              b_Network := ''tcp'', b_up := True, b_checkInterval := 2000000000\<rparr>]\<rparr>)"
    by (simp add: NewService_def Let_def add_def slice3_def NewBackend_def elems_def
        zero_ServiceConfig_def zero_BackendConfig_def zero_Backend_def zero_Service_def
        duration_of_ms_def Millisecond_def)
  show ?thesis
    using a NewService_Config_roundtrip [OF a] by (rule conjI)
qed

end
